theory Spec2Isabelle
  imports Main "HOL-Library.Word"
begin

section \<open>Python values and the two primitive operations the projections use\<close>

text \<open>
  A snapshot is the decoded JSON payload the coordinator holds: numbers, strings,
  booleans, \<open>None\<close>, lists and nested dictionaries. A dictionary is an association list
  read with \<open>map_of\<close>. A float is carried as its binary64 bit pattern: the sensor module
  never computes with it, it only passes it on.
\<close>

datatype pyval =
    PNone
  | PBool bool
  | PInt int
  | PFloat "64 word"
  | PStr string
  | PList "pyval list"
  | PDict "(string \<times> pyval) list"

text \<open>
  The exceptions a projection can raise. \<open>KeyError k\<close> is what Python raises for a
  missing dictionary key \<open>k\<close> (the specification calls it \<open>MissingFieldError\<close>);
  \<open>TypeError\<close> is raised when a value that is not a dictionary is subscripted with a
  string key.
\<close>

datatype py_error = KeyError string | TypeError

type_synonym 'a result = "py_error + 'a"

text \<open>\<open>x[k]\<close> for a string key \<open>k\<close>.\<close>

fun getitem :: "pyval \<Rightarrow> string \<Rightarrow> pyval result" where
  "getitem (PDict kvs) k = (case map_of kvs k of None \<Rightarrow> Inl (KeyError k) | Some v \<Rightarrow> Inr v)"
| "getitem PNone k = Inl TypeError"
| "getitem (PBool b) k = Inl TypeError"
| "getitem (PInt i) k = Inl TypeError"
| "getitem (PFloat f) k = Inl TypeError"
| "getitem (PStr s) k = Inl TypeError"
| "getitem (PList xs) k = Inl TypeError"

text \<open>\<open>x == "literal"\<close>: only a string can be equal to a string literal.\<close>

fun py_eq_str :: "pyval \<Rightarrow> string \<Rightarrow> bool" where
  "py_eq_str (PStr t) s = (t = s)"
| "py_eq_str PNone s = False"
| "py_eq_str (PBool b) s = False"
| "py_eq_str (PInt i) s = False"
| "py_eq_str (PFloat f) s = False"
| "py_eq_str (PList xs) s = False"
| "py_eq_str (PDict kvs) s = False"

text \<open>
  The same two operations on the result of a sub-expression: an exception raised by
  the sub-expression propagates.
\<close>

definition subscript :: "pyval result \<Rightarrow> string \<Rightarrow> pyval result" where
  "subscript r k = (case r of Inl e \<Rightarrow> Inl e | Inr v \<Rightarrow> getitem v k)"

definition eq_str :: "pyval result \<Rightarrow> string \<Rightarrow> pyval result" where
  "eq_str r s = (case r of Inl e \<Rightarrow> Inl e | Inr v \<Rightarrow> Inr (PBool (py_eq_str v s)))"

section \<open>Sensor descriptions\<close>

text \<open>The members of the host's enumerations and unit constants that the table uses.\<close>

datatype SensorStateClass = MEASUREMENT

datatype SensorDeviceClass = BATTERY | ENERGY_STORAGE | POWER

datatype unit_of_measurement = PERCENTAGE | WATT_HOUR | WATT

text \<open>
  \<open>MaxStorageSensorDescription\<close>: the fields of the host's entity description that the
  table sets, \<open>value_fn\<close> from the mixin, and \<open>attr_fn\<close>.
\<close>

record MaxStorageSensorDescription =
  key :: string
  translation_key :: string
  icon :: string
  value_fn :: "pyval \<Rightarrow> pyval result"
  native_unit_of_measurement :: "unit_of_measurement option"
  state_class :: "SensorStateClass option"
  device_class :: "SensorDeviceClass option"
  attr_fn :: "pyval \<Rightarrow> (string \<times> pyval) list result"

text \<open>The default of \<open>attr_fn\<close>: \<open>lambda _: {}\<close>.\<close>

definition attr_fn_default :: "pyval \<Rightarrow> (string \<times> pyval) list result" where
  "attr_fn_default = (\<lambda>_. Inr [])"

definition SENSOR_TYPES :: "MaxStorageSensorDescription list" where
  "SENSOR_TYPES = [
    \<lparr> key = ''batterySoC'',
      translation_key = ''battery_soc'',
      icon = ''mdi:battery'',
      value_fn = (\<lambda>data. subscript (Inr data) ''batterySoC''),
      native_unit_of_measurement = Some PERCENTAGE,
      state_class = Some MEASUREMENT,
      device_class = Some BATTERY,
      attr_fn = attr_fn_default \<rparr>,
    \<lparr> key = ''batteryCapacity'',
      translation_key = ''battery_capacity'',
      icon = ''mdi:battery'',
      value_fn = (\<lambda>data. subscript (Inr data) ''batteryCapacity''),
      native_unit_of_measurement = Some WATT_HOUR,
      state_class = Some MEASUREMENT,
      device_class = Some ENERGY_STORAGE,
      attr_fn = attr_fn_default \<rparr>,
    \<lparr> key = ''batteryPower'',
      translation_key = ''battery_power'',
      icon = ''mdi:battery'',
      value_fn = (\<lambda>data. subscript (Inr data) ''batteryPower''),
      native_unit_of_measurement = Some WATT,
      state_class = Some MEASUREMENT,
      device_class = Some POWER,
      attr_fn = attr_fn_default \<rparr>,
    \<lparr> key = ''gridPower'',
      translation_key = ''grid_power'',
      icon = ''mdi:transmission-tower'',
      value_fn = (\<lambda>data. subscript (Inr data) ''gridPower''),
      native_unit_of_measurement = Some WATT,
      state_class = Some MEASUREMENT,
      device_class = Some POWER,
      attr_fn = attr_fn_default \<rparr>,
    \<lparr> key = ''usagePower'',
      translation_key = ''usage_power'',
      icon = ''mdi:transmission-tower'',
      value_fn = (\<lambda>data. subscript (Inr data) ''usagePower''),
      native_unit_of_measurement = Some WATT,
      state_class = Some MEASUREMENT,
      device_class = Some POWER,
      attr_fn = attr_fn_default \<rparr>,
    \<lparr> key = ''plantPower'',
      translation_key = ''plant_power'',
      icon = ''mdi:solar-power'',
      value_fn = (\<lambda>data. subscript (Inr data) ''plantPower''),
      native_unit_of_measurement = Some WATT,
      state_class = Some MEASUREMENT,
      device_class = Some POWER,
      attr_fn = attr_fn_default \<rparr>,
    \<lparr> key = ''storage_dc_power'',
      translation_key = ''storageDCPower'',
      icon = ''mdi:solar-power'',
      value_fn = (\<lambda>data. subscript (Inr data) ''storageDCPower''),
      native_unit_of_measurement = Some WATT,
      state_class = Some MEASUREMENT,
      device_class = Some POWER,
      attr_fn = attr_fn_default \<rparr>,
    \<lparr> key = ''mppt1Power'',
      translation_key = ''mppt1_power'',
      icon = ''mdi:solar-power'',
      value_fn = (\<lambda>data. subscript (Inr data) ''storageMPPT1Power''),
      native_unit_of_measurement = Some WATT,
      state_class = Some MEASUREMENT,
      device_class = Some POWER,
      attr_fn = attr_fn_default \<rparr>,
    \<lparr> key = ''mppt2Power'',
      translation_key = ''mppt2_power'',
      icon = ''mdi:solar-power'',
      value_fn = (\<lambda>data. subscript (Inr data) ''storageMPPT2Power''),
      native_unit_of_measurement = Some WATT,
      state_class = Some MEASUREMENT,
      device_class = Some POWER,
      attr_fn = attr_fn_default \<rparr>,
    \<lparr> key = ''deviceInUpdate'',
      translation_key = ''device_in_update'',
      icon = ''mdi:update'',
      value_fn = (\<lambda>data.
        eq_str (subscript (subscript (Inr data) ''SpecialState'') ''deviceInUpdate'') ''true''),
      native_unit_of_measurement = None,
      state_class = None,
      device_class = None,
      attr_fn = attr_fn_default \<rparr>,
    \<lparr> key = ''dcSwitchOff'',
      translation_key = ''dc_switch_off'',
      icon = ''mdi:toggle-switch-off'',
      value_fn = (\<lambda>data.
        eq_str (subscript (subscript (Inr data) ''SpecialState'') ''dcSwitchOff'') ''true''),
      native_unit_of_measurement = None,
      state_class = None,
      device_class = None,
      attr_fn = attr_fn_default \<rparr>,
    \<lparr> key = ''gridCodeUnknown'',
      translation_key = ''grid_code_unknown'',
      icon = ''mdi:help'',
      value_fn = (\<lambda>data.
        eq_str (subscript (subscript (Inr data) ''SpecialState'') ''gridCodeUnknown'') ''true''),
      native_unit_of_measurement = None,
      state_class = None,
      device_class = None,
      attr_fn = attr_fn_default \<rparr>,
    \<lparr> key = ''inWinterMode'',
      translation_key = ''in_winter_mode'',
      icon = ''mdi:snowflake'',
      value_fn = (\<lambda>data.
        eq_str (subscript (subscript (Inr data) ''SpecialState'') ''inWinterMode'') ''true''),
      native_unit_of_measurement = None,
      state_class = None,
      device_class = None,
      attr_fn = attr_fn_default \<rparr>,
    \<lparr> key = ''inBMZEqualization'',
      translation_key = ''in_bmz_equalization'',
      icon = ''mdi:battery-50'',
      value_fn = (\<lambda>data.
        eq_str (subscript (subscript (Inr data) ''SpecialState'') ''inBMZEqualization'') ''true''),
      native_unit_of_measurement = None,
      state_class = None,
      device_class = None,
      attr_fn = attr_fn_default \<rparr>,
    \<lparr> key = ''inPeakShaving'',
      translation_key = ''in_peak_shaving'',
      icon = ''mdi:flash'',
      value_fn = (\<lambda>data.
        eq_str (subscript (subscript (Inr data) ''SpecialState'') ''inPeakShaving'') ''true''),
      native_unit_of_measurement = None,
      state_class = None,
      device_class = None,
      attr_fn = attr_fn_default \<rparr>,
    \<lparr> key = ''inOptimizationLimit'',
      translation_key = ''in_optimization_limit'',
      icon = ''mdi:tune'',
      value_fn = (\<lambda>data.
        eq_str (subscript (subscript (Inr data) ''SpecialState'') ''inOptimizationLimit'') ''true''),
      native_unit_of_measurement = None,
      state_class = None,
      device_class = None,
      attr_fn = attr_fn_default \<rparr>,
    \<lparr> key = ''inBatteryCalibration'',
      translation_key = ''in_battery_calibration'',
      icon = ''mdi:battery-sync'',
      value_fn = (\<lambda>data.
        eq_str (subscript (subscript (Inr data) ''SpecialState'') ''inBatteryCalibration'') ''true''),
      native_unit_of_measurement = None,
      state_class = None,
      device_class = None,
      attr_fn = attr_fn_default \<rparr>,
    \<lparr> key = ''noPowerMeter'',
      translation_key = ''no_power_meter'',
      icon = ''mdi:diameter-variant'',
      value_fn = (\<lambda>data.
        eq_str (subscript (subscript (Inr data) ''SpecialState'') ''noPowerMeter'') ''true''),
      native_unit_of_measurement = None,
      state_class = None,
      device_class = None,
      attr_fn = attr_fn_default \<rparr>,
    \<lparr> key = ''gridError'',
      translation_key = ''grid_error'',
      icon = ''mdi:alert-circle-outline'',
      value_fn = (\<lambda>data.
        eq_str (subscript (subscript (Inr data) ''SpecialState'') ''gridError'') ''true''),
      native_unit_of_measurement = None,
      state_class = None,
      device_class = None,
      attr_fn = attr_fn_default \<rparr>,
    \<lparr> key = ''gridLocked'',
      translation_key = ''grid_locked'',
      icon = ''mdi:lock'',
      value_fn = (\<lambda>data.
        eq_str (subscript (subscript (Inr data) ''SpecialState'') ''gridLocked'') ''true''),
      native_unit_of_measurement = None,
      state_class = None,
      device_class = None,
      attr_fn = attr_fn_default \<rparr>,
    \<lparr> key = ''islandActive'',
      translation_key = ''island_active'',
      icon = ''mdi:island'',
      value_fn = (\<lambda>data.
        eq_str (subscript (subscript (Inr data) ''SpecialState'') ''islandActive'') ''true''),
      native_unit_of_measurement = None,
      state_class = None,
      device_class = None,
      attr_fn = attr_fn_default \<rparr>,
    \<lparr> key = ''serviceMode'',
      translation_key = ''service_mode'',
      icon = ''mdi:toolbox-outline'',
      value_fn = (\<lambda>data.
        eq_str (subscript (subscript (Inr data) ''SpecialState'') ''serviceMode'') ''true''),
      native_unit_of_measurement = None,
      state_class = None,
      device_class = None,
      attr_fn = attr_fn_default \<rparr>
  ]"

section \<open>The sensor entity\<close>

text \<open>
  Modelled from the spec: the coordinator class is not part of this module. The sensor
  reads three things from it: \<open>coordinator.api.device_info\<close>, a dictionary whose entry
  \<open>'Ident'\<close> is the device's identity token (a string, per \<open>device_identity() -> string\<close>),
  \<open>coordinator.device_info\<close>, and \<open>coordinator.data\<close>, the latest snapshot, which is
  \<open>None\<close> (the unset marker) until the first refresh has completed.
\<close>

record MaxStorageDataUpdateCoordinator =
  api_device_info :: "(string \<times> string) list"
  device_info :: pyval
  data :: pyval

text \<open>
  \<open>MaxStorageSensor\<close>. The field \<open>coordinator\<close> stands for the referenced coordinator
  object in its current state.
\<close>

record MaxStorageSensor =
  coordinator :: MaxStorageDataUpdateCoordinator
  entity_description :: MaxStorageSensorDescription
  attr_unique_id :: string
  attr_device_info :: pyval

text \<open>
  \<open>MaxStorageSensor.__init__\<close>: the unique id is the f-string
  \<open>"{coordinator.api.device_info['Ident']}_{description.translation_key}"\<close>; the
  dictionary lookup raises \<open>KeyError\<close> when \<open>'Ident'\<close> is missing.
\<close>

definition MaxStorageSensor_init ::
  "MaxStorageDataUpdateCoordinator \<Rightarrow> MaxStorageSensorDescription \<Rightarrow> MaxStorageSensor result" where
  "MaxStorageSensor_init c description =
     (case map_of (api_device_info c) ''Ident'' of
        None \<Rightarrow> Inl (KeyError ''Ident'')
      | Some ident \<Rightarrow>
          Inr \<lparr> coordinator = c,
                entity_description = description,
                attr_unique_id = ident @ ''_'' @ translation_key description,
                attr_device_info = device_info c \<rparr>)"

definition native_value :: "MaxStorageSensor \<Rightarrow> pyval result" where
  "native_value self = value_fn (entity_description self) (data (coordinator self))"

definition extra_state_attributes :: "MaxStorageSensor \<Rightarrow> (string \<times> pyval) list result" where
  "extra_state_attributes self = attr_fn (entity_description self) (data (coordinator self))"

text \<open>
  \<open>async_setup_entry\<close> builds one sensor per description, in table order; the first
  constructor that raises aborts the comprehension.
\<close>

fun collect :: "'a result list \<Rightarrow> 'a list result" where
  "collect [] = Inr []"
| "collect (r # rs) =
     (case r of
        Inl e \<Rightarrow> Inl e
      | Inr x \<Rightarrow> (case collect rs of Inl e \<Rightarrow> Inl e | Inr xs \<Rightarrow> Inr (x # xs)))"

definition async_setup_entry :: "MaxStorageDataUpdateCoordinator \<Rightarrow> MaxStorageSensor list result" where
  "async_setup_entry c = collect (map (MaxStorageSensor_init c) SENSOR_TYPES)"

text \<open>
  The boolean-flag descriptions are the ones the table declares without a device
  class (and without unit and state class): the thirteen \<open>SpecialState\<close> entries.
\<close>

definition is_flag :: "MaxStorageSensorDescription \<Rightarrow> bool" where
  "is_flag d = (device_class d = None)"

text \<open>
  The nine measurement descriptions each read one top-level field of the snapshot.
  This table pairs the \<open>key\<close> of each with the field its \<open>value_fn\<close> subscripts; the
  two differ for the last three.
\<close>

definition top_level_field :: "(string \<times> string) list" where
  "top_level_field =
     [(''batterySoC'', ''batterySoC''),
      (''batteryCapacity'', ''batteryCapacity''),
      (''batteryPower'', ''batteryPower''),
      (''gridPower'', ''gridPower''),
      (''usagePower'', ''usagePower''),
      (''plantPower'', ''plantPower''),
      (''storage_dc_power'', ''storageDCPower''),
      (''mppt1Power'', ''storageMPPT1Power''),
      (''mppt2Power'', ''storageMPPT2Power'')]"

section \<open>Facts about the primitives and the table\<close>

lemma length_SENSOR_TYPES: "length SENSOR_TYPES = 22"
  by (simp add: SENSOR_TYPES_def)

lemma collect_map_Inr: "collect (map (\<lambda>x. Inr (f x)) xs) = Inr (map f xs)"
  by (induction xs) simp_all

lemma flag_keys:
  "map key (filter is_flag SENSOR_TYPES) =
     [''deviceInUpdate'', ''dcSwitchOff'', ''gridCodeUnknown'', ''inWinterMode'',
      ''inBMZEqualization'', ''inPeakShaving'', ''inOptimizationLimit'',
      ''inBatteryCalibration'', ''noPowerMeter'', ''gridError'', ''gridLocked'',
      ''islandActive'', ''serviceMode'']"
  by (simp add: SENSOR_TYPES_def is_flag_def)

lemma flag_value_fn:
  "\<forall>d\<in>set SENSOR_TYPES. is_flag d \<longrightarrow>
     value_fn d = (\<lambda>data. eq_str (subscript (subscript (Inr data) ''SpecialState'') (key d)) ''true'')"
  by (simp add: SENSOR_TYPES_def is_flag_def)

lemma top_level_value_fn:
  "\<forall>d\<in>set SENSOR_TYPES. \<not> is_flag d \<longrightarrow>
     (\<exists>f. map_of top_level_field (key d) = Some f \<and> value_fn d = (\<lambda>data. subscript (Inr data) f))"
  by (simp add: SENSOR_TYPES_def is_flag_def top_level_field_def)

lemma flag_no_top_level_field:
  "\<forall>d\<in>set SENSOR_TYPES. is_flag d \<longrightarrow> map_of top_level_field (key d) = None"
  by (simp add: SENSOR_TYPES_def is_flag_def top_level_field_def)

lemma attr_fn_table: "\<forall>d\<in>set SENSOR_TYPES. attr_fn d = attr_fn_default"
  by (simp add: SENSOR_TYPES_def)

lemma battery_power_value_fn:
  "\<forall>d\<in>set SENSOR_TYPES. key d = ''batteryPower'' \<longrightarrow>
     value_fn d = (\<lambda>data. subscript (Inr data) ''batteryPower'')"
  by (simp add: SENSOR_TYPES_def)

lemma translation_keys_distinct: "distinct (map translation_key SENSOR_TYPES)"
  by (simp add: SENSOR_TYPES_def)

lemma distinct_prefixed:
  assumes "distinct (map g xs)"
  shows "distinct (map (\<lambda>x. p @ g x) xs)"
  using assms by (auto simp: distinct_map inj_on_def)

lemma async_setup_entry_Inr:
  assumes "map_of (api_device_info c) ''Ident'' = Some ident"
  shows "async_setup_entry c =
     Inr (map (\<lambda>d. \<lparr> coordinator = c, entity_description = d,
                     attr_unique_id = ident @ ''_'' @ translation_key d,
                     attr_device_info = device_info c \<rparr>) SENSOR_TYPES)"
proof -
  have "MaxStorageSensor_init c =
      (\<lambda>d. Inr \<lparr> coordinator = c, entity_description = d,
                 attr_unique_id = ident @ ''_'' @ translation_key d,
                 attr_device_info = device_info c \<rparr>)"
    using assms by (simp add: MaxStorageSensor_init_def fun_eq_iff)
  then show ?thesis
    by (simp add: async_setup_entry_def collect_map_Inr)
qed

lemma async_setup_entry_Inl:
  assumes "map_of (api_device_info c) ''Ident'' = None"
  shows "async_setup_entry c = Inl (KeyError ''Ident'')"
  using assms by (simp add: async_setup_entry_def MaxStorageSensor_init_def SENSOR_TYPES_def)

lemma value_fn_None_table:
  "\<forall>d\<in>set SENSOR_TYPES. value_fn d PNone = Inl TypeError"
  by (simp add: SENSOR_TYPES_def subscript_def eq_str_def)

section \<open>Reading a sensor before the first refresh\<close>

text \<open>
  C1 (amended). While the coordinator has no snapshot yet, \<open>coordinator.data\<close> is
  \<open>None\<close>, and \<open>native_value\<close> of every sensor built from a description of the table
  raises \<open>TypeError\<close>: each \<open>value_fn\<close> subscripts \<open>None\<close>. There is no fallback to an
  "unknown" value in this module.
\<close>

theorem native_value_no_snapshot:
  assumes "entity_description self \<in> set SENSOR_TYPES"
    and "data (coordinator self) = PNone"
  shows "native_value self = Inl TypeError"
  using assms value_fn_None_table by (simp add: native_value_def)

text \<open>
  The theorem at the battery-power sensor of a device that has not been polled.
\<close>

theorem native_value_no_snapshot_witness:
  "entity_description
     \<lparr> coordinator = \<lparr> api_device_info = [(''Ident'', ''dev'')], device_info = PNone, data = PNone \<rparr>,
       entity_description = SENSOR_TYPES ! 2,
       attr_unique_id = ''dev_battery_power'',
       attr_device_info = PNone \<rparr> \<in> set SENSOR_TYPES
   \<and> native_value
     \<lparr> coordinator = \<lparr> api_device_info = [(''Ident'', ''dev'')], device_info = PNone, data = PNone \<rparr>,
       entity_description = SENSOR_TYPES ! 2,
       attr_unique_id = ''dev_battery_power'',
       attr_device_info = PNone \<rparr> = Inl TypeError"
proof -
  have m: "SENSOR_TYPES ! 2 \<in> set SENSOR_TYPES"
    by (rule nth_mem) (simp add: length_SENSOR_TYPES)
  show ?thesis
    using m native_value_no_snapshot
      [of "\<lparr> coordinator = \<lparr> api_device_info = [(''Ident'', ''dev'')], device_info = PNone, data = PNone \<rparr>,
       entity_description = SENSOR_TYPES ! 2,
       attr_unique_id = ''dev_battery_power'',
       attr_device_info = PNone \<rparr>"]
    by simp
qed

text \<open>
  The claim as the specification words it fails at the first sensor of the table: with
  no snapshot the read raises, it does not return \<open>None\<close>.
\<close>

theorem native_value_no_snapshot_counterexample:
  "native_value
     \<lparr> coordinator = \<lparr> api_device_info = [(''Ident'', ''dev'')], device_info = PNone, data = PNone \<rparr>,
       entity_description = SENSOR_TYPES ! 0,
       attr_unique_id = ''dev_battery_soc'',
       attr_device_info = PNone \<rparr> = Inl TypeError
   \<and> native_value
     \<lparr> coordinator = \<lparr> api_device_info = [(''Ident'', ''dev'')], device_info = PNone, data = PNone \<rparr>,
       entity_description = SENSOR_TYPES ! 0,
       attr_unique_id = ''dev_battery_soc'',
       attr_device_info = PNone \<rparr> \<noteq> Inr PNone"
  by (simp add: native_value_def SENSOR_TYPES_def subscript_def)

section \<open>Unique identifiers\<close>

text \<open>
  C2 (amended). For every device whose \<open>device_info\<close> has an \<open>'Ident'\<close> entry and every
  description, construction succeeds and the sensor's unique id is the identity token,
  an underscore, and the description's \<open>translation_key\<close>, in that order.
\<close>

theorem unique_id_is_ident_translation_key:
  assumes "map_of (api_device_info c) ''Ident'' = Some ident"
  shows "map_sum id attr_unique_id (MaxStorageSensor_init c d) = Inr (ident @ ''_'' @ translation_key d)"
  using assms by (simp add: MaxStorageSensor_init_def)

text \<open>
  The theorem at the \<open>storage_dc_power\<close> description, whose translation key is
  \<open>storageDCPower\<close>.
\<close>

theorem unique_id_is_ident_translation_key_witness:
  "map_of (api_device_info \<lparr> api_device_info = [(''Ident'', ''dev'')], device_info = PNone, data = PNone \<rparr>)
     ''Ident'' = Some ''dev''
   \<and> map_sum id attr_unique_id
        (MaxStorageSensor_init
           \<lparr> api_device_info = [(''Ident'', ''dev'')], device_info = PNone, data = PNone \<rparr>
           (SENSOR_TYPES ! 6)) = Inr ''dev_storageDCPower''"
proof -
  have h: "map_of (api_device_info
      \<lparr> api_device_info = [(''Ident'', ''dev'')], device_info = PNone, data = PNone \<rparr>) ''Ident'' = Some ''dev''"
    by simp
  have t: "translation_key (SENSOR_TYPES ! 6) = ''storageDCPower''"
    by (simp add: SENSOR_TYPES_def)
  show ?thesis
    using h t unique_id_is_ident_translation_key [OF h, of "SENSOR_TYPES ! 6"] by simp
qed

text \<open>
  The unique id is not the identity token followed by the \<open>key\<close>: for the first
  description the key is \<open>batterySoC\<close> and the unique id ends in \<open>_battery_soc\<close>.
\<close>

theorem unique_id_key_counterexample:
  "key (SENSOR_TYPES ! 0) = ''batterySoC''
   \<and> map_sum id attr_unique_id
        (MaxStorageSensor_init
           \<lparr> api_device_info = [(''Ident'', ''dev'')], device_info = PNone, data = PNone \<rparr>
           (SENSOR_TYPES ! 0)) = Inr ''dev_battery_soc''
   \<and> map_sum id attr_unique_id
        (MaxStorageSensor_init
           \<lparr> api_device_info = [(''Ident'', ''dev'')], device_info = PNone, data = PNone \<rparr>
           (SENSOR_TYPES ! 0)) \<noteq> Inr (''dev'' @ key (SENSOR_TYPES ! 0))"
  by (simp add: MaxStorageSensor_init_def SENSOR_TYPES_def)

text \<open>
  C8. For two devices whose identity tokens differ and any one description, both
  sensors are constructed, and their unique ids are different.
\<close>

theorem unique_id_differs_across_devices:
  assumes "map_of (api_device_info c1) ''Ident'' = Some ident1"
    and "map_of (api_device_info c2) ''Ident'' = Some ident2"
    and "ident1 \<noteq> ident2"
  shows "\<exists>s1 s2. MaxStorageSensor_init c1 d = Inr s1
               \<and> MaxStorageSensor_init c2 d = Inr s2
               \<and> attr_unique_id s1 \<noteq> attr_unique_id s2"
  using assms by (simp add: MaxStorageSensor_init_def)

text \<open>
  The theorem at two tokens of which one is a prefix of the other: both constructors
  return a sensor, and the two unique ids, \<open>a_grid_power\<close> and \<open>a__grid_power\<close>, differ.
\<close>

theorem unique_id_differs_across_devices_witness:
  "map_of (api_device_info \<lparr> api_device_info = [(''Ident'', ''a'')], device_info = PNone, data = PNone \<rparr>)
      ''Ident'' = Some ''a''
   \<and> map_of (api_device_info \<lparr> api_device_info = [(''Ident'', ''a_'')], device_info = PNone, data = PNone \<rparr>)
      ''Ident'' = Some ''a_''
   \<and> ''a'' \<noteq> ''a_''
   \<and> MaxStorageSensor_init
        \<lparr> api_device_info = [(''Ident'', ''a'')], device_info = PNone, data = PNone \<rparr> (SENSOR_TYPES ! 3)
     = Inr (projr (MaxStorageSensor_init
        \<lparr> api_device_info = [(''Ident'', ''a'')], device_info = PNone, data = PNone \<rparr> (SENSOR_TYPES ! 3)))
   \<and> MaxStorageSensor_init
        \<lparr> api_device_info = [(''Ident'', ''a_'')], device_info = PNone, data = PNone \<rparr> (SENSOR_TYPES ! 3)
     = Inr (projr (MaxStorageSensor_init
        \<lparr> api_device_info = [(''Ident'', ''a_'')], device_info = PNone, data = PNone \<rparr> (SENSOR_TYPES ! 3)))
   \<and> attr_unique_id (projr (MaxStorageSensor_init
        \<lparr> api_device_info = [(''Ident'', ''a'')], device_info = PNone, data = PNone \<rparr> (SENSOR_TYPES ! 3)))
     \<noteq> attr_unique_id (projr (MaxStorageSensor_init
        \<lparr> api_device_info = [(''Ident'', ''a_'')], device_info = PNone, data = PNone \<rparr> (SENSOR_TYPES ! 3)))
   \<and> attr_unique_id (projr (MaxStorageSensor_init
        \<lparr> api_device_info = [(''Ident'', ''a'')], device_info = PNone, data = PNone \<rparr> (SENSOR_TYPES ! 3)))
     = ''a_grid_power''
   \<and> attr_unique_id (projr (MaxStorageSensor_init
        \<lparr> api_device_info = [(''Ident'', ''a_'')], device_info = PNone, data = PNone \<rparr> (SENSOR_TYPES ! 3)))
     = ''a__grid_power''"
proof -
  have h1: "map_of (api_device_info
      \<lparr> api_device_info = [(''Ident'', ''a'')], device_info = PNone, data = PNone \<rparr>) ''Ident'' = Some ''a''"
    by simp
  have h2: "map_of (api_device_info
      \<lparr> api_device_info = [(''Ident'', ''a_'')], device_info = PNone, data = PNone \<rparr>) ''Ident'' = Some ''a_''"
    by simp
  have h3: "''a'' \<noteq> ''a_''"
    by simp
  have t: "translation_key (SENSOR_TYPES ! 3) = ''grid_power''"
    by (simp add: SENSOR_TYPES_def)
  have i1: "attr_unique_id (projr (MaxStorageSensor_init
        \<lparr> api_device_info = [(''Ident'', ''a'')], device_info = PNone, data = PNone \<rparr> (SENSOR_TYPES ! 3)))
     = ''a_grid_power''"
    by (simp add: MaxStorageSensor_init_def t)
  have i2: "attr_unique_id (projr (MaxStorageSensor_init
        \<lparr> api_device_info = [(''Ident'', ''a_'')], device_info = PNone, data = PNone \<rparr> (SENSOR_TYPES ! 3)))
     = ''a__grid_power''"
    by (simp add: MaxStorageSensor_init_def t)
  from unique_id_differs_across_devices [OF h1 h2 h3, of "SENSOR_TYPES ! 3"]
  obtain s1 s2 where
    c1: "MaxStorageSensor_init
        \<lparr> api_device_info = [(''Ident'', ''a'')], device_info = PNone, data = PNone \<rparr> (SENSOR_TYPES ! 3) = Inr s1"
    and c2: "MaxStorageSensor_init
        \<lparr> api_device_info = [(''Ident'', ''a_'')], device_info = PNone, data = PNone \<rparr> (SENSOR_TYPES ! 3) = Inr s2"
    and ne: "attr_unique_id s1 \<noteq> attr_unique_id s2"
    by blast
  show ?thesis
    using h1 h2 h3 i1 i2 c1 c2 ne by simp
qed

section \<open>The descriptor table\<close>

text \<open>
  C5. No two descriptions of the table share a \<open>key\<close>: the list of keys, in table
  order, has no repetition.
\<close>

theorem SENSOR_TYPES_key_distinct: "distinct (map key SENSOR_TYPES)"
  by (simp add: SENSOR_TYPES_def)

text \<open>
  C9. No two descriptions of the table share a \<open>translation_key\<close>, and therefore the
  sensors that \<open>async_setup_entry\<close> builds for one device have pairwise different
  unique ids.
\<close>

theorem SENSOR_TYPES_translation_key_distinct:
  "distinct (map translation_key SENSOR_TYPES)
   \<and> (\<forall>c sensors. async_setup_entry c = Inr sensors \<longrightarrow> distinct (map attr_unique_id sensors))"
proof (intro conjI allI impI)
  show "distinct (map translation_key SENSOR_TYPES)"
    by (rule translation_keys_distinct)
next
  fix c sensors
  assume ok: "async_setup_entry c = Inr sensors"
  show "distinct (map attr_unique_id sensors)"
  proof (cases "map_of (api_device_info c) ''Ident''")
    case None
    then show ?thesis
      using ok by (simp add: async_setup_entry_Inl)
  next
    case (Some ident)
    have "distinct (map (\<lambda>d. (ident @ ''_'') @ translation_key d) SENSOR_TYPES)"
      using translation_keys_distinct by (rule distinct_prefixed)
    moreover have "map attr_unique_id sensors =
        map (\<lambda>d. (ident @ ''_'') @ translation_key d) SENSOR_TYPES"
      using ok async_setup_entry_Inr [OF Some] by (auto simp: comp_def)
    ultimately show ?thesis
      by simp
  qed
qed

text \<open>
  The theorem at one device: setup succeeds, builds 22 sensors, and their unique ids
  are pairwise different.
\<close>

theorem SENSOR_TYPES_translation_key_distinct_witness:
  "async_setup_entry \<lparr> api_device_info = [(''Ident'', ''dev'')], device_info = PNone, data = PNone \<rparr>
     = Inr (projr (async_setup_entry
         \<lparr> api_device_info = [(''Ident'', ''dev'')], device_info = PNone, data = PNone \<rparr>))
   \<and> length (projr (async_setup_entry
         \<lparr> api_device_info = [(''Ident'', ''dev'')], device_info = PNone, data = PNone \<rparr>)) = 22
   \<and> distinct (map attr_unique_id (projr (async_setup_entry
         \<lparr> api_device_info = [(''Ident'', ''dev'')], device_info = PNone, data = PNone \<rparr>)))"
proof -
  have h: "map_of (api_device_info
      \<lparr> api_device_info = [(''Ident'', ''dev'')], device_info = PNone, data = PNone \<rparr>) ''Ident'' = Some ''dev''"
    by simp
  have e: "async_setup_entry \<lparr> api_device_info = [(''Ident'', ''dev'')], device_info = PNone, data = PNone \<rparr>
     = Inr (projr (async_setup_entry
         \<lparr> api_device_info = [(''Ident'', ''dev'')], device_info = PNone, data = PNone \<rparr>))"
    by (simp add: async_setup_entry_Inr [OF h])
  have l: "length (projr (async_setup_entry
         \<lparr> api_device_info = [(''Ident'', ''dev'')], device_info = PNone, data = PNone \<rparr>)) = 22"
    by (simp add: async_setup_entry_Inr [OF h] length_SENSOR_TYPES)
  show ?thesis
    using e l SENSOR_TYPES_translation_key_distinct by blast
qed

section \<open>Projections\<close>

text \<open>
  C3. For every boolean-flag description of the table and every snapshot whose
  \<open>SpecialState\<close> block holds a string under the description's key, the sensor's value
  is the boolean "that string is exactly \<open>true\<close>": \<open>True\<close> for \<open>"true"\<close>, \<open>False\<close> for
  \<open>"false"\<close> and for every other string, case variants included.
\<close>

theorem flag_exact_match:
  assumes "entity_description self \<in> set SENSOR_TYPES"
    and "is_flag (entity_description self)"
    and "data (coordinator self) = PDict kvs"
    and "map_of kvs ''SpecialState'' = Some (PDict st)"
    and "map_of st (key (entity_description self)) = Some (PStr v)"
  shows "native_value self = Inr (PBool (v = ''true''))"
proof -
  have "value_fn (entity_description self) =
      (\<lambda>data. eq_str (subscript (subscript (Inr data) ''SpecialState'') (key (entity_description self))) ''true'')"
    using assms(1,2) flag_value_fn by blast
  then show ?thesis
    using assms(3,4,5) by (simp add: native_value_def subscript_def eq_str_def)
qed

text \<open>
  The theorem at the island-active sensor, once with \<open>"true"\<close> and once with \<open>"True"\<close>.
\<close>

theorem flag_exact_match_witness:
  "SENSOR_TYPES ! 20 \<in> set SENSOR_TYPES
   \<and> is_flag (SENSOR_TYPES ! 20)
   \<and> key (SENSOR_TYPES ! 20) = ''islandActive''
   \<and> native_value
        \<lparr> coordinator = \<lparr> api_device_info = [(''Ident'', ''dev'')], device_info = PNone,
              data = PDict [(''SpecialState'', PDict [(''islandActive'', PStr ''true'')])] \<rparr>,
          entity_description = SENSOR_TYPES ! 20,
          attr_unique_id = ''dev_island_active'',
          attr_device_info = PNone \<rparr> = Inr (PBool True)
   \<and> native_value
        \<lparr> coordinator = \<lparr> api_device_info = [(''Ident'', ''dev'')], device_info = PNone,
              data = PDict [(''SpecialState'', PDict [(''islandActive'', PStr ''True'')])] \<rparr>,
          entity_description = SENSOR_TYPES ! 20,
          attr_unique_id = ''dev_island_active'',
          attr_device_info = PNone \<rparr> = Inr (PBool False)"
proof -
  have m: "SENSOR_TYPES ! 20 \<in> set SENSOR_TYPES"
    by (rule nth_mem) (simp add: length_SENSOR_TYPES)
  have f: "is_flag (SENSOR_TYPES ! 20)"
    by (simp add: SENSOR_TYPES_def is_flag_def)
  have k: "key (SENSOR_TYPES ! 20) = ''islandActive''"
    by (simp add: SENSOR_TYPES_def)
  show ?thesis
    using m f k
      flag_exact_match
        [of "\<lparr> coordinator = \<lparr> api_device_info = [(''Ident'', ''dev'')], device_info = PNone,
              data = PDict [(''SpecialState'', PDict [(''islandActive'', PStr ''true'')])] \<rparr>,
          entity_description = SENSOR_TYPES ! 20,
          attr_unique_id = ''dev_island_active'',
          attr_device_info = PNone \<rparr>"
          "[(''SpecialState'', PDict [(''islandActive'', PStr ''true'')])]"
          "[(''islandActive'', PStr ''true'')]" "''true''"]
      flag_exact_match
        [of "\<lparr> coordinator = \<lparr> api_device_info = [(''Ident'', ''dev'')], device_info = PNone,
              data = PDict [(''SpecialState'', PDict [(''islandActive'', PStr ''True'')])] \<rparr>,
          entity_description = SENSOR_TYPES ! 20,
          attr_unique_id = ''dev_island_active'',
          attr_device_info = PNone \<rparr>"
          "[(''SpecialState'', PDict [(''islandActive'', PStr ''True'')])]"
          "[(''islandActive'', PStr ''True'')]" "''True''"]
    by simp
qed

text \<open>
  C4. For a snapshot that is a dictionary without the key \<open>SpecialState\<close>: every flag
  sensor raises \<open>KeyError 'SpecialState'\<close> (the specification's \<open>MissingFieldError\<close>;
  nothing in the module catches it), and every other sensor of the table reads one
  top-level field, listed in \<open>top_level_field\<close>, and returns the value stored under it
  whenever the snapshot has that field.
\<close>

theorem missing_SpecialState:
  assumes "entity_description self \<in> set SENSOR_TYPES"
    and "data (coordinator self) = PDict kvs"
    and "map_of kvs ''SpecialState'' = None"
  shows "(is_flag (entity_description self) \<longrightarrow>
            native_value self = Inl (KeyError ''SpecialState''))
       \<and> (\<not> is_flag (entity_description self) \<longrightarrow>
            (\<exists>f. map_of top_level_field (key (entity_description self)) = Some f
               \<and> (\<forall>v. map_of kvs f = Some v \<longrightarrow> native_value self = Inr v)))"
proof (intro conjI impI)
  assume "is_flag (entity_description self)"
  then have "value_fn (entity_description self) =
      (\<lambda>data. eq_str (subscript (subscript (Inr data) ''SpecialState'') (key (entity_description self))) ''true'')"
    using assms(1) flag_value_fn by blast
  then show "native_value self = Inl (KeyError ''SpecialState'')"
    using assms(2,3) by (simp add: native_value_def subscript_def eq_str_def)
next
  assume "\<not> is_flag (entity_description self)"
  then obtain f where f: "map_of top_level_field (key (entity_description self)) = Some f"
    and v: "value_fn (entity_description self) = (\<lambda>data. subscript (Inr data) f)"
    using assms(1) top_level_value_fn by blast
  have "\<forall>v. map_of kvs f = Some v \<longrightarrow> native_value self = Inr v"
    using v assms(2) by (simp add: native_value_def subscript_def)
  with f show "\<exists>f. map_of top_level_field (key (entity_description self)) = Some f
      \<and> (\<forall>v. map_of kvs f = Some v \<longrightarrow> native_value self = Inr v)"
    by blast
qed

text \<open>
  The theorem at a snapshot that holds only \<open>storageMPPT1Power\<close>: the device-in-update
  sensor raises, the first MPPT power sensor returns 1500.
\<close>

theorem missing_SpecialState_witness:
  "SENSOR_TYPES ! 9 \<in> set SENSOR_TYPES
   \<and> SENSOR_TYPES ! 7 \<in> set SENSOR_TYPES
   \<and> map_of [(''storageMPPT1Power'', PInt 1500)] ''SpecialState'' = None
   \<and> is_flag (SENSOR_TYPES ! 9)
   \<and> native_value
        \<lparr> coordinator = \<lparr> api_device_info = [(''Ident'', ''dev'')], device_info = PNone,
              data = PDict [(''storageMPPT1Power'', PInt 1500)] \<rparr>,
          entity_description = SENSOR_TYPES ! 9,
          attr_unique_id = ''dev_device_in_update'',
          attr_device_info = PNone \<rparr> = Inl (KeyError ''SpecialState'')
   \<and> is_flag (SENSOR_TYPES ! 7) = False
   \<and> native_value
        \<lparr> coordinator = \<lparr> api_device_info = [(''Ident'', ''dev'')], device_info = PNone,
              data = PDict [(''storageMPPT1Power'', PInt 1500)] \<rparr>,
          entity_description = SENSOR_TYPES ! 7,
          attr_unique_id = ''dev_mppt1_power'',
          attr_device_info = PNone \<rparr> = Inr (PInt 1500)"
proof -
  have m9: "SENSOR_TYPES ! 9 \<in> set SENSOR_TYPES"
    by (rule nth_mem) (simp add: length_SENSOR_TYPES)
  have m7: "SENSOR_TYPES ! 7 \<in> set SENSOR_TYPES"
    by (rule nth_mem) (simp add: length_SENSOR_TYPES)
  have f9: "is_flag (SENSOR_TYPES ! 9)"
    by (simp add: SENSOR_TYPES_def is_flag_def)
  have f7: "\<not> is_flag (SENSOR_TYPES ! 7)"
    by (simp add: SENSOR_TYPES_def is_flag_def)
  have k7: "map_of top_level_field (key (SENSOR_TYPES ! 7)) = Some ''storageMPPT1Power''"
    by (simp add: SENSOR_TYPES_def top_level_field_def)
  show ?thesis
    using m9 m7 f9 f7 k7
      missing_SpecialState
        [of "\<lparr> coordinator = \<lparr> api_device_info = [(''Ident'', ''dev'')], device_info = PNone,
              data = PDict [(''storageMPPT1Power'', PInt 1500)] \<rparr>,
          entity_description = SENSOR_TYPES ! 9,
          attr_unique_id = ''dev_device_in_update'',
          attr_device_info = PNone \<rparr>" "[(''storageMPPT1Power'', PInt 1500)]"]
      missing_SpecialState
        [of "\<lparr> coordinator = \<lparr> api_device_info = [(''Ident'', ''dev'')], device_info = PNone,
              data = PDict [(''storageMPPT1Power'', PInt 1500)] \<rparr>,
          entity_description = SENSOR_TYPES ! 7,
          attr_unique_id = ''dev_mppt1_power'',
          attr_device_info = PNone \<rparr>" "[(''storageMPPT1Power'', PInt 1500)]"]
    by simp
qed

text \<open>
  C6. The battery-power sensor returns whatever the snapshot stores under
  \<open>batteryPower\<close>, unchanged: no conversion and no scaling.
\<close>

theorem battery_power_passthrough:
  assumes "entity_description self \<in> set SENSOR_TYPES"
    and "key (entity_description self) = ''batteryPower''"
    and "data (coordinator self) = PDict kvs"
    and "map_of kvs ''batteryPower'' = Some v"
  shows "native_value self = Inr v"
proof -
  have "value_fn (entity_description self) = (\<lambda>data. subscript (Inr data) ''batteryPower'')"
    using assms(1,2) battery_power_value_fn by blast
  then show ?thesis
    using assms(3,4) by (simp add: native_value_def subscript_def)
qed

text \<open>
  The theorem at the snapshot \<open>{"batteryPower": 1500}\<close>.
\<close>

theorem battery_power_passthrough_witness:
  "SENSOR_TYPES ! 2 \<in> set SENSOR_TYPES
   \<and> key (SENSOR_TYPES ! 2) = ''batteryPower''
   \<and> map_of [(''batteryPower'', PInt 1500)] ''batteryPower'' = Some (PInt 1500)
   \<and> native_value
        \<lparr> coordinator = \<lparr> api_device_info = [(''Ident'', ''dev'')], device_info = PNone,
              data = PDict [(''batteryPower'', PInt 1500)] \<rparr>,
          entity_description = SENSOR_TYPES ! 2,
          attr_unique_id = ''dev_battery_power'',
          attr_device_info = PNone \<rparr> = Inr (PInt 1500)"
proof -
  have m: "SENSOR_TYPES ! 2 \<in> set SENSOR_TYPES"
    by (rule nth_mem) (simp add: length_SENSOR_TYPES)
  have k: "key (SENSOR_TYPES ! 2) = ''batteryPower''"
    by (simp add: SENSOR_TYPES_def)
  show ?thesis
    using m k
      battery_power_passthrough
        [of "\<lparr> coordinator = \<lparr> api_device_info = [(''Ident'', ''dev'')], device_info = PNone,
              data = PDict [(''batteryPower'', PInt 1500)] \<rparr>,
          entity_description = SENSOR_TYPES ! 2,
          attr_unique_id = ''dev_battery_power'',
          attr_device_info = PNone \<rparr>" "[(''batteryPower'', PInt 1500)]" "PInt 1500"]
    by simp
qed

text \<open>
  C7. Every description of the table keeps the default \<open>attr_fn\<close>, which returns the
  empty dictionary for every argument; so \<open>extra_state_attributes\<close> is the empty
  dictionary for every state of the coordinator, also while its data is still \<open>None\<close>.
\<close>

theorem attributes_empty:
  assumes "entity_description self \<in> set SENSOR_TYPES"
  shows "attr_fn (entity_description self) x = Inr [] \<and> extra_state_attributes self = Inr []"
  using assms attr_fn_table by (simp add: extra_state_attributes_def attr_fn_default_def)

text \<open>
  The theorem at the first sensor of a device that has not been polled.
\<close>

theorem attributes_empty_witness:
  "SENSOR_TYPES ! 0 \<in> set SENSOR_TYPES
   \<and> attr_fn (SENSOR_TYPES ! 0) (PDict [(''batterySoC'', PInt 80)]) = Inr []
   \<and> extra_state_attributes
        \<lparr> coordinator = \<lparr> api_device_info = [(''Ident'', ''dev'')], device_info = PNone, data = PNone \<rparr>,
          entity_description = SENSOR_TYPES ! 0,
          attr_unique_id = ''dev_battery_soc'',
          attr_device_info = PNone \<rparr> = Inr []"
proof -
  have m: "SENSOR_TYPES ! 0 \<in> set SENSOR_TYPES"
    by (rule nth_mem) (simp add: length_SENSOR_TYPES)
  show ?thesis
    using m
      attributes_empty
        [of "\<lparr> coordinator = \<lparr> api_device_info = [(''Ident'', ''dev'')], device_info = PNone, data = PNone \<rparr>,
          entity_description = SENSOR_TYPES ! 0,
          attr_unique_id = ''dev_battery_soc'',
          attr_device_info = PNone \<rparr>" "PDict [(''batterySoC'', PInt 80)]"]
    by simp
qed

end
